theory Spec2Isabelle
  imports Main "HOL-Library.Word"
begin

section \<open>Data model of the FlinkCluster resource\<close>

text \<open>
  The validator of \<^verbatim>\<open>api/v1alpha1/flinkcluster_validate.go\<close> reads a
  \<^verbatim>\<open>FlinkCluster\<close>. The struct declarations are not part of the validated file;
  the records below hold every field the validator reads, under the path by which
  it reads it (\<^verbatim>\<open>cluster.ObjectMeta.Name\<close>, \<^verbatim>\<open>cluster.Spec.Job.CancelRequested\<close>, ...).
  Each struct below \<^verbatim>\<open>Spec\<close> carries one more component of an arbitrary type
  \<open>'x\<close> for the fields the validator never reads, so that equality of two
  specifications ranges over the whole tree.

  A Go pointer that the validator only tests against \<^verbatim>\<open>nil\<close> and reads through is an
  \<open>option\<close>; \<^verbatim>\<open>int32\<close> and \<^verbatim>\<open>int64\<close> are words, compared as signed numbers.
  Two record fields cannot share a name, so the fields of the two port sets and
  the two replica counts carry the prefix of their component.
\<close>

type_synonym int32 = "32 word"
type_synonym int64 = "64 word"

record ObjectMeta =
  Name :: string
  Namespace :: string

record 'x ImageSpec =
  ImageName :: string
  PullPolicy :: string
  ImageOther :: 'x

record JobManagerPorts =
  JmRPC :: "int32 option"
  JmBlob :: "int32 option"
  JmQuery :: "int32 option"
  JmUI :: "int32 option"

text \<open>
  \<^verbatim>\<open>corev1.ResourceRequirements\<close>: \<^verbatim>\<open>Limits\<close> is a map from resource names to
  quantities; a quantity is held by the number its \<^verbatim>\<open>Value()\<close> returns.
\<close>

record ResourceRequirements =
  Limits :: "(string \<times> int64) list"

record 'x JobManagerSpec =
  JmReplicas :: "int32 option"
  AccessScope :: string
  JmPorts :: JobManagerPorts
  Resources :: ResourceRequirements
  MemoryOffHeapRatio :: "int32 option"
  MemoryOffHeapMin :: "int32 option"
  JmOther :: 'x

record TaskManagerPorts =
  TmRPC :: "int32 option"
  TmData :: "int32 option"
  TmQuery :: "int32 option"

record 'x TaskManagerSpec =
  TmReplicas :: int32
  TmPorts :: TaskManagerPorts
  TmOther :: 'x

record CleanupPolicy =
  AfterJobSucceeds :: string
  AfterJobFails :: string

record 'x JobSpec =
  JarFile :: string
  Parallelism :: "int32 option"
  RestartPolicy :: "string option"
  CleanupPolicy :: "CleanupPolicy option"
  CancelRequested :: "bool option"
  JobOther :: 'x

text \<open>
  The \<^verbatim>\<open>Job\<close> field is the one pointer of the tree that the validator writes
  through (on a copy), so its type is a parameter: \<open>'x JobSpec option\<close> where
  the specification is read as a value, an address into a store of job
  specifications where the writes are followed.
\<close>

record ('j, 'x) FlinkClusterSpec =
  Image :: "'x ImageSpec"
  JobManager :: "'x JobManagerSpec"
  TaskManager :: "'x TaskManagerSpec"
  Job :: 'j
  SpecOther :: 'x

record ('j, 'x) FlinkCluster =
  ObjectMeta :: ObjectMeta
  Spec :: "('j, 'x) FlinkClusterSpec"

type_synonym 'x Cluster = "('x JobSpec option, 'x) FlinkCluster"

section \<open>Errors and outcomes\<close>

text \<open>
  One constructor for each \<^verbatim>\<open>fmt.Errorf\<close> of the file, with the values its format
  string prints. A Go \<^verbatim>\<open>error\<close> result is an \<open>error option\<close>: \<open>None\<close> is \<^verbatim>\<open>nil\<close>.
\<close>

datatype error =
    ClusterNameUnspecified
      \<comment> \<open>cluster name is unspecified\<close>
  | ClusterNamespaceUnspecified
      \<comment> \<open>cluster namesapce is unspecified\<close>
  | ImageNameUnspecified
      \<comment> \<open>image name is unspecified\<close>
  | InvalidPullPolicy string
      \<comment> \<open>invalid image pullPolicy: %v\<close>
  | InvalidJobManagerReplicas
      \<comment> \<open>invalid JobManager replicas, it must be 1\<close>
  | InvalidAccessScope string
      \<comment> \<open>invalid JobManager access scope: %v\<close>
  | PortUnspecified string string
      \<comment> \<open>%v %v port is unspecified (component, name)\<close>
  | InvalidPort string string int32
      \<comment> \<open>invalid %v %v port: %v, must be > 1024 (component, name, port)\<close>
  | InvalidMemoryOffHeapRatio
      \<comment> \<open>invalid JobManager memoryOffHeapRatio, it must be between 0 and 100\<close>
  | MemoryOffHeapMinNotSpecified
      \<comment> \<open>invalid JobManager memory configuration, MemoryOffHeapMin is not specified\<close>
  | MemoryLimitTooSmall
      \<comment> \<open>invalid JobManager memory configuration, memory limit must be larger than
          MemoryOffHeapMin\<close>
  | InvalidTaskManagerReplicas
      \<comment> \<open>invalid TaskManager replicas, it must >= 1\<close>
  | JarFileUnspecified
      \<comment> \<open>job jarFile is unspecified\<close>
  | ParallelismUnspecified
      \<comment> \<open>job parallelism is unspecified\<close>
  | ParallelismTooSmall
      \<comment> \<open>job parallelism must be >= 1\<close>
  | RestartPolicyUnspecified
      \<comment> \<open>job restartPolicy is unspecified\<close>
  | InvalidRestartPolicy string
      \<comment> \<open>invalid job restartPolicy: %v\<close>
  | CleanupPolicyUnspecified
      \<comment> \<open>job cleanupPolicy is unspecified\<close>
  | InvalidCleanupAction string string
      \<comment> \<open>invalid %v: %v (property, value)\<close>
  | CancelRequestedForNewJob
      \<comment> \<open>property `cancelRequested` cannot be set to true for a new job\<close>
  | NotUpdatable
      \<comment> \<open>the cluster properties are not updatable\<close>
  | CancelTrueToFalse
      \<comment> \<open>updating cancelRequested from true to false is not allowed\<close>

text \<open>
  A call either returns its result or stops in a run-time panic (here always the
  dereference of a \<^verbatim>\<open>nil\<close> pointer).
\<close>

datatype 'a outcome = Return 'a | Panic

text \<open>\<^verbatim>\<open>*p\<close>: the value behind a pointer, a panic when the pointer is \<^verbatim>\<open>nil\<close>.\<close>

fun deref :: "'a option \<Rightarrow> 'a outcome" where
  "deref None = Panic"
| "deref (Some v) = Return v"

section \<open>Constants of the enumerations\<close>

text \<open>
  The string constants of \<^verbatim>\<open>k8s.io/api/core/v1\<close> that the validator switches on.
\<close>

definition PullAlways :: string where "PullAlways = ''Always''"
definition PullIfNotPresent :: string where "PullIfNotPresent = ''IfNotPresent''"
definition PullNever :: string where "PullNever = ''Never''"
definition RestartPolicyNever :: string where "RestartPolicyNever = ''Never''"
definition RestartPolicyOnFailure :: string where "RestartPolicyOnFailure = ''OnFailure''"

text \<open>
  Modelled from the spec: the declarations of \<^verbatim>\<open>AccessScope\<close> (a value with the
  three fields \<^verbatim>\<open>Cluster\<close>, \<^verbatim>\<open>VPC\<close>, \<^verbatim>\<open>External\<close>) and of the three \<^verbatim>\<open>CleanupAction\<close>
  constants are in the type declarations of the package, not in the validated
  file. The spec gives the access scope as the enumeration Cluster | VPC |
  External and the cleanup action as DeleteCluster | DeleteTaskManager |
  KeepCluster; each constant is the string of its name.
\<close>

definition AccessScope_Cluster :: string where "AccessScope_Cluster = ''Cluster''"
definition AccessScope_VPC :: string where "AccessScope_VPC = ''VPC''"
definition AccessScope_External :: string where "AccessScope_External = ''External''"
definition CleanupActionDeleteCluster :: string where
  "CleanupActionDeleteCluster = ''DeleteCluster''"
definition CleanupActionDeleteTaskManager :: string where
  "CleanupActionDeleteTaskManager = ''DeleteTaskManager''"
definition CleanupActionKeepCluster :: string where
  "CleanupActionKeepCluster = ''KeepCluster''"

section \<open>The create path\<close>

definition validateMeta :: "ObjectMeta \<Rightarrow> error option" where
  "validateMeta meta =
     (if length (Name meta) = 0 then Some ClusterNameUnspecified
      else if length (Namespace meta) = 0 then Some ClusterNamespaceUnspecified
      else None)"

definition validateImage :: "'x ImageSpec \<Rightarrow> error option" where
  "validateImage imageSpec =
     (if length (ImageName imageSpec) = 0 then Some ImageNameUnspecified
      else if PullPolicy imageSpec = PullAlways then None
      else if PullPolicy imageSpec = PullIfNotPresent then None
      else if PullPolicy imageSpec = PullNever then None
      else Some (InvalidPullPolicy (PullPolicy imageSpec)))"

definition validatePort :: "int32 option \<Rightarrow> string \<Rightarrow> string \<Rightarrow> error option" where
  "validatePort port name component =
     (case port of
        None \<Rightarrow> Some (PortUnspecified component name)
      | Some p \<Rightarrow>
          if p <=s 1024 then Some (InvalidPort component name p) else None)"

definition validateCleanupAction :: "string \<Rightarrow> string \<Rightarrow> error option" where
  "validateCleanupAction property v =
     (if v = CleanupActionDeleteCluster then None
      else if v = CleanupActionDeleteTaskManager then None
      else if v = CleanupActionKeepCluster then None
      else Some (InvalidCleanupAction property v))"

text \<open>
  \<^verbatim>\<open>Limits.Memory().Value()\<close>: the quantity stored under the key \<^verbatim>\<open>memory\<close>, zero
  when the key is missing.
\<close>

definition MemoryValue :: "(string \<times> int64) list \<Rightarrow> int64" where
  "MemoryValue limits = (case map_of limits ''memory'' of Some q \<Rightarrow> q | None \<Rightarrow> 0)"

text \<open>
  \<^verbatim>\<open>int32(math.Floor(float64(bytes) / float64(divisor.Value())))\<close> with the divisor
  \<^verbatim>\<open>1Mi\<close> = \<open>2 ^ 20\<close>. A byte count below \<open>2 ^ 53\<close> in magnitude is exactly
  representable, the division by a power of two is exact, and the floor is the
  quotient on the integers. When that quotient is outside the range of \<^verbatim>\<open>int32\<close>
  (which is the case for every byte count from \<open>2 ^ 51\<close> on, rounded or not) the
  conversion is implementation-defined in Go; the value taken here is the one of
  the amd64 conversion instruction, the least \<^verbatim>\<open>int32\<close>. No result of
  \<open>validateJobManager\<close> depends on this number: see there.
\<close>

definition jmMemLimit :: "int64 \<Rightarrow> int32" where
  "jmMemLimit bytes =
     (let q = sint bytes div 2 ^ 20
      in if - (2 ^ 31) \<le> q \<and> q < 2 ^ 31 then word_of_int q else - (2 ^ 31))"

text \<open>
  The last test of \<^verbatim>\<open>validateJobManager\<close> is
  \<^verbatim>\<open>if jmSpec.MemoryOffHeapMin != nil { return error } else if *jmSpec.MemoryOffHeapMin > int32(jmMemLimit) { return error }\<close>:
  the \<^verbatim>\<open>else\<close> branch is entered exactly when the pointer is \<^verbatim>\<open>nil\<close>, and
  dereferences it.
\<close>

definition validateJobManager :: "'x JobManagerSpec \<Rightarrow> error option outcome" where
  "validateJobManager jmSpec =
     (if JmReplicas jmSpec = None \<or> the (JmReplicas jmSpec) \<noteq> 1
        then Return (Some InvalidJobManagerReplicas)
      else if \<not> (AccessScope jmSpec = AccessScope_Cluster
                \<or> AccessScope jmSpec = AccessScope_VPC
                \<or> AccessScope jmSpec = AccessScope_External)
        then Return (Some (InvalidAccessScope (AccessScope jmSpec)))
      else (case validatePort (JmRPC (JmPorts jmSpec)) ''rpc'' ''jobmanager'' of
        Some err \<Rightarrow> Return (Some err)
      | None \<Rightarrow>
      (case validatePort (JmBlob (JmPorts jmSpec)) ''blob'' ''jobmanager'' of
        Some err \<Rightarrow> Return (Some err)
      | None \<Rightarrow>
      (case validatePort (JmQuery (JmPorts jmSpec)) ''query'' ''jobmanager'' of
        Some err \<Rightarrow> Return (Some err)
      | None \<Rightarrow>
      (case validatePort (JmUI (JmPorts jmSpec)) ''ui'' ''jobmanager'' of
        Some err \<Rightarrow> Return (Some err)
      | None \<Rightarrow>
      if MemoryOffHeapRatio jmSpec = None
           \<or> 100 <s the (MemoryOffHeapRatio jmSpec)
           \<or> the (MemoryOffHeapRatio jmSpec) <s 0
        then Return (Some InvalidMemoryOffHeapRatio)
      else if MemoryOffHeapMin jmSpec \<noteq> None
        then Return (Some MemoryOffHeapMinNotSpecified)
      else (case deref (MemoryOffHeapMin jmSpec) of
        Panic \<Rightarrow> Panic
      | Return m \<Rightarrow>
          if jmMemLimit (MemoryValue (Limits (Resources jmSpec))) <s m
            then Return (Some MemoryLimitTooSmall)
          else Return None))))))"

definition validateTaskManager :: "'x TaskManagerSpec \<Rightarrow> error option" where
  "validateTaskManager tmSpec =
     (if TmReplicas tmSpec <s 1 then Some InvalidTaskManagerReplicas
      else (case validatePort (TmRPC (TmPorts tmSpec)) ''rpc'' ''taskmanager'' of
        Some err \<Rightarrow> Some err
      | None \<Rightarrow>
      (case validatePort (TmData (TmPorts tmSpec)) ''data'' ''taskmanager'' of
        Some err \<Rightarrow> Some err
      | None \<Rightarrow>
      (case validatePort (TmQuery (TmPorts tmSpec)) ''query'' ''taskmanager'' of
        Some err \<Rightarrow> Some err
      | None \<Rightarrow> None))))"

definition validateJob :: "'x JobSpec option \<Rightarrow> error option" where
  "validateJob jobSpecPtr =
     (case jobSpecPtr of
        None \<Rightarrow> None
      | Some jobSpec \<Rightarrow>
          if length (JarFile jobSpec) = 0 then Some JarFileUnspecified
          else (case Parallelism jobSpec of
            None \<Rightarrow> Some ParallelismUnspecified
          | Some par \<Rightarrow>
          if par <s 1 then Some ParallelismTooSmall
          else (case RestartPolicy jobSpec of
            None \<Rightarrow> Some RestartPolicyUnspecified
          | Some rp \<Rightarrow>
          if \<not> (rp = RestartPolicyNever \<or> rp = RestartPolicyOnFailure)
            then Some (InvalidRestartPolicy rp)
          else (case CleanupPolicy jobSpec of
            None \<Rightarrow> Some CleanupPolicyUnspecified
          | Some cp \<Rightarrow>
          (case validateCleanupAction ''cleanupPolicy.afterJobSucceeds''
                  (AfterJobSucceeds cp) of
            Some err \<Rightarrow> Some err
          | None \<Rightarrow>
          (case validateCleanupAction ''cleanupPolicy.afterJobFails''
                  (AfterJobFails cp) of
            Some err \<Rightarrow> Some err
          | None \<Rightarrow>
          if CancelRequested jobSpec \<noteq> None \<and> the (CancelRequested jobSpec)
            then Some CancelRequestedForNewJob
          else None))))))"

text \<open>
  \<^verbatim>\<open>ValidateCreate\<close> runs the five checks in order and returns the first error; a
  panic of the manager check ends the call. The cluster pointers that
  \<^verbatim>\<open>ValidateCreate\<close> and \<^verbatim>\<open>ValidateUpdate\<close> receive are taken to point to a cluster:
  the functions are defined on the cluster itself.
\<close>

definition ValidateCreate :: "'x Cluster \<Rightarrow> error option outcome" where
  "ValidateCreate cluster =
     (case validateMeta (ObjectMeta cluster) of
        Some err \<Rightarrow> Return (Some err)
      | None \<Rightarrow>
      (case validateImage (Image (Spec cluster)) of
        Some err \<Rightarrow> Return (Some err)
      | None \<Rightarrow>
      (case validateJobManager (JobManager (Spec cluster)) of
        Panic \<Rightarrow> Panic
      | Return (Some err) \<Rightarrow> Return (Some err)
      | Return None \<Rightarrow>
      (case validateTaskManager (TaskManager (Spec cluster)) of
        Some err \<Rightarrow> Return (Some err)
      | None \<Rightarrow>
      (case validateJob (Job (Spec cluster)) of
        Some err \<Rightarrow> Return (Some err)
      | None \<Rightarrow> Return None)))))"

section \<open>The update path\<close>

text \<open>
  \<^verbatim>\<open>reflect.DeepEqual\<close> on two specifications follows every pointer and compares
  what it finds, field by field: on the records, where a pointer is the
  \<open>option\<close> of its target, that is equality.
\<close>

definition DeepEqual :: "'a \<Rightarrow> 'a \<Rightarrow> bool" where
  "DeepEqual a b = (a = b)"

text \<open>
  Modelled from the spec: \<^verbatim>\<open>DeepCopy\<close> is generated code of the package, not in
  the validated file. The spec calls its result a clone of \<^verbatim>\<open>old\<close>; on values a
  clone is the value itself.
\<close>

definition DeepCopy :: "'x Cluster \<Rightarrow> 'x Cluster" where
  "DeepCopy c = c"

text \<open>
  The assignment \<^verbatim>\<open>c.Spec.Job.CancelRequested = v\<close>, made only where
  \<^verbatim>\<open>c.Spec.Job\<close> is not \<^verbatim>\<open>nil\<close>.
\<close>

definition assignCancelRequested :: "'x Cluster \<Rightarrow> bool option \<Rightarrow> 'x Cluster" where
  "assignCancelRequested c v =
     c\<lparr>Spec := (Spec c)\<lparr>Job :=
          map_option (\<lambda>job. job\<lparr>CancelRequested := v\<rparr>) (Job (Spec c))\<rparr>\<rparr>"

definition checkCancelRequested :: "'x Cluster \<Rightarrow> 'x Cluster \<Rightarrow> bool \<times> error option" where
  "checkCancelRequested old new =
     (case Job (Spec old) of
        None \<Rightarrow> (False, None)
      | Some oldJob \<Rightarrow>
      (case Job (Spec new) of
        None \<Rightarrow> (False, None)
      | Some newJob \<Rightarrow>
          let restartJob =
                (CancelRequested oldJob \<noteq> None \<and> the (CancelRequested oldJob))
                \<and> (CancelRequested newJob = None \<or> \<not> the (CancelRequested newJob))
          in
          if restartJob then (False, Some CancelTrueToFalse)
          else
          let stopJob =
                (CancelRequested oldJob = None \<or> \<not> the (CancelRequested oldJob))
                \<and> (CancelRequested newJob \<noteq> None \<and> the (CancelRequested newJob))
          in
          if stopJob then
            let oldCopy = DeepCopy old;
                oldCopy = assignCancelRequested oldCopy (CancelRequested newJob)
            in (DeepEqual (Spec new) (Spec oldCopy), None)
          else (False, None)))"

definition ValidateUpdate :: "'x Cluster \<Rightarrow> 'x Cluster \<Rightarrow> error option" where
  "ValidateUpdate old new =
     (case checkCancelRequested old new of
        (cancelRequested, err) \<Rightarrow>
          if err \<noteq> None then err
          else if cancelRequested then None
          else if \<not> DeepEqual (Spec new) (Spec old) then Some NotUpdatable
          else None)"

section \<open>The update path on a store\<close>

text \<open>
  \<^verbatim>\<open>ValidateUpdate\<close> receives two pointers, and \<^verbatim>\<open>checkCancelRequested\<close> assigns
  through \<^verbatim>\<open>oldCopy.Spec.Job\<close>. To follow that assignment the objects are placed
  in a store: the \<^verbatim>\<open>FlinkCluster\<close> objects and the \<^verbatim>\<open>JobSpec\<close> objects each in a
  list, an address being an index. A cluster object holds the address of its job
  (or \<^verbatim>\<open>nil\<close>); a new object is appended at the end. Reading through an address
  that is not allocated (which stands for \<^verbatim>\<open>nil\<close>: Go has no dangling pointers)
  panics.
\<close>

type_synonym addr = nat

type_synonym 'x ClusterObj = "(addr option, 'x) FlinkCluster"

record 'x store =
  clusters :: "'x ClusterObj list"
  jobs :: "'x JobSpec list"

definition load :: "'a list \<Rightarrow> addr \<Rightarrow> 'a outcome" where
  "load objs a = (if a < length objs then Return (objs ! a) else Panic)"

text \<open>
  Modelled from the spec: \<^verbatim>\<open>DeepCopy\<close> is generated code of the package, not in
  the validated file. The spec calls its result a clone and a local scratch
  copy: it allocates a new cluster object and, when the cluster has a job, a new
  job object with the same fields, and returns the address of the new cluster.
\<close>

definition DeepCopy_st :: "'x store \<Rightarrow> addr \<Rightarrow> addr outcome \<times> 'x store" where
  "DeepCopy_st s p =
     (case load (clusters s) p of
        Panic \<Rightarrow> (Panic, s)
      | Return c \<Rightarrow>
      (case Job (Spec c) of
        None \<Rightarrow>
          (Return (length (clusters s)), s\<lparr>clusters := clusters s @ [c]\<rparr>)
      | Some jobP \<Rightarrow>
      (case load (jobs s) jobP of
        Panic \<Rightarrow> (Panic, s)
      | Return job \<Rightarrow>
          (Return (length (clusters s)),
           s\<lparr>clusters :=
                clusters s @ [c\<lparr>Spec := (Spec c)\<lparr>Job := Some (length (jobs s))\<rparr>\<rparr>],
              jobs := jobs s @ [job]\<rparr>))))"

text \<open>
  The assignment \<^verbatim>\<open>dst.Spec.Job.CancelRequested = src.Spec.Job.CancelRequested\<close>:
  the only write of the file.
\<close>

definition assignCancelRequested_st ::
    "'x store \<Rightarrow> addr \<Rightarrow> addr \<Rightarrow> unit outcome \<times> 'x store" where
  "assignCancelRequested_st s dst src =
     (case load (clusters s) src of
        Panic \<Rightarrow> (Panic, s)
      | Return srcC \<Rightarrow>
      (case deref (Job (Spec srcC)) of
        Panic \<Rightarrow> (Panic, s)
      | Return srcJobP \<Rightarrow>
      (case load (jobs s) srcJobP of
        Panic \<Rightarrow> (Panic, s)
      | Return srcJob \<Rightarrow>
      (case load (clusters s) dst of
        Panic \<Rightarrow> (Panic, s)
      | Return dstC \<Rightarrow>
      (case deref (Job (Spec dstC)) of
        Panic \<Rightarrow> (Panic, s)
      | Return dstJobP \<Rightarrow>
      (case load (jobs s) dstJobP of
        Panic \<Rightarrow> (Panic, s)
      | Return dstJob \<Rightarrow>
          (Return (),
           s\<lparr>jobs := (jobs s)[dstJobP :=
                  dstJob\<lparr>CancelRequested := CancelRequested srcJob\<rparr>]\<rparr>)))))))"

text \<open>
  What \<^verbatim>\<open>reflect.DeepEqual\<close> sees of a \<^verbatim>\<open>Spec\<close> in a store: the job pointer is
  followed.
\<close>

definition specValue ::
    "'x store \<Rightarrow> (addr option, 'x) FlinkClusterSpec
       \<Rightarrow> ('x JobSpec option, 'x) FlinkClusterSpec" where
  "specValue s sp =
     \<lparr>Image = Image sp, JobManager = JobManager sp, TaskManager = TaskManager sp,
      Job = (case Job sp of
               None \<Rightarrow> None
             | Some jobP \<Rightarrow> if jobP < length (jobs s) then Some (jobs s ! jobP) else None),
      SpecOther = SpecOther sp\<rparr>"

text \<open>\<^verbatim>\<open>reflect.DeepEqual(a.Spec, b.Spec)\<close> for two cluster pointers.\<close>

definition DeepEqual_Spec_st :: "'x store \<Rightarrow> addr \<Rightarrow> addr \<Rightarrow> bool outcome" where
  "DeepEqual_Spec_st s a b =
     (case load (clusters s) a of
        Panic \<Rightarrow> Panic
      | Return ca \<Rightarrow>
      (case load (clusters s) b of
        Panic \<Rightarrow> Panic
      | Return cb \<Rightarrow>
          Return (DeepEqual (specValue s (Spec ca)) (specValue s (Spec cb)))))"

definition checkCancelRequested_st ::
    "'x store \<Rightarrow> addr \<Rightarrow> addr \<Rightarrow> (bool \<times> error option) outcome \<times> 'x store" where
  "checkCancelRequested_st s old new =
     (case load (clusters s) old of
        Panic \<Rightarrow> (Panic, s)
      | Return oldC \<Rightarrow>
      (case load (clusters s) new of
        Panic \<Rightarrow> (Panic, s)
      | Return newC \<Rightarrow>
      (case Job (Spec oldC) of
        None \<Rightarrow> (Return (False, None), s)
      | Some oldJobP \<Rightarrow>
      (case Job (Spec newC) of
        None \<Rightarrow> (Return (False, None), s)
      | Some newJobP \<Rightarrow>
      (case load (jobs s) oldJobP of
        Panic \<Rightarrow> (Panic, s)
      | Return oldJob \<Rightarrow>
      (case load (jobs s) newJobP of
        Panic \<Rightarrow> (Panic, s)
      | Return newJob \<Rightarrow>
          let restartJob =
                (CancelRequested oldJob \<noteq> None \<and> the (CancelRequested oldJob))
                \<and> (CancelRequested newJob = None \<or> \<not> the (CancelRequested newJob))
          in
          if restartJob then (Return (False, Some CancelTrueToFalse), s)
          else
          let stopJob =
                (CancelRequested oldJob = None \<or> \<not> the (CancelRequested oldJob))
                \<and> (CancelRequested newJob \<noteq> None \<and> the (CancelRequested newJob))
          in
          if stopJob then
            (case DeepCopy_st s old of
               (Panic, s1) \<Rightarrow> (Panic, s1)
             | (Return oldCopy, s1) \<Rightarrow>
            (case assignCancelRequested_st s1 oldCopy new of
               (Panic, s2) \<Rightarrow> (Panic, s2)
             | (Return u, s2) \<Rightarrow>
            (case DeepEqual_Spec_st s2 new oldCopy of
               Panic \<Rightarrow> (Panic, s2)
             | Return eq \<Rightarrow> (Return (eq, None), s2))))
          else (Return (False, None), s)))))))"

definition ValidateUpdate_st ::
    "'x store \<Rightarrow> addr \<Rightarrow> addr \<Rightarrow> error option outcome \<times> 'x store" where
  "ValidateUpdate_st s old new =
     (case checkCancelRequested_st s old new of
        (Panic, s1) \<Rightarrow> (Panic, s1)
      | (Return (cancelRequested, err), s1) \<Rightarrow>
          if err \<noteq> None then (Return err, s1)
          else if cancelRequested then (Return None, s1)
          else
          (case DeepEqual_Spec_st s1 new old of
             Panic \<Rightarrow> (Panic, s1)
           | Return eq \<Rightarrow>
               if \<not> eq then (Return (Some NotUpdatable), s1)
               else (Return None, s1)))"

text \<open>The value of the cluster at an address: its job pointer followed.\<close>

definition clusterValue :: "'x store \<Rightarrow> addr \<Rightarrow> 'x Cluster" where
  "clusterValue s p =
     \<lparr>ObjectMeta = ObjectMeta (clusters s ! p),
      Spec = specValue s (Spec (clusters s ! p))\<rparr>"

text \<open>
  A store is well formed at a cluster address when the address is allocated and
  the job pointer of the cluster, if any, is allocated too.
\<close>

definition validCluster :: "'x store \<Rightarrow> addr \<Rightarrow> bool" where
  "validCluster s p =
     (p < length (clusters s)
      \<and> (case Job (Spec (clusters s ! p)) of
           None \<Rightarrow> True
         | Some jobP \<Rightarrow> jobP < length (jobs s)))"

section \<open>Concrete specifications\<close>

text \<open>
  A cluster with one job manager, two task managers and a job, written the way
  a user of the operator would; \<open>1073741824\<close> bytes are \<^verbatim>\<open>1Gi\<close>. The components
  for unread fields are empty.
\<close>

definition exampleJobManager :: "unit JobManagerSpec" where
  "exampleJobManager =
     \<lparr>JmReplicas = Some 1, AccessScope = ''Cluster'',
      JmPorts = \<lparr>JmRPC = Some 6123, JmBlob = Some 6124, JmQuery = Some 6125,
                 JmUI = Some 8081\<rparr>,
      Resources = \<lparr>Limits = [(''memory'', 1073741824)]\<rparr>,
      MemoryOffHeapRatio = Some 25, MemoryOffHeapMin = Some 600, JmOther = ()\<rparr>"

definition exampleTaskManager :: "unit TaskManagerSpec" where
  "exampleTaskManager =
     \<lparr>TmReplicas = 2,
      TmPorts = \<lparr>TmRPC = Some 6122, TmData = Some 6121, TmQuery = Some 6125\<rparr>,
      TmOther = ()\<rparr>"

definition exampleJob :: "unit JobSpec" where
  "exampleJob =
     \<lparr>JarFile = ''/opt/job.jar'', Parallelism = Some 2,
      RestartPolicy = Some ''Never'',
      CleanupPolicy = Some \<lparr>AfterJobSucceeds = ''DeleteCluster'',
                            AfterJobFails = ''KeepCluster''\<rparr>,
      CancelRequested = None, JobOther = ()\<rparr>"

definition exampleSpec :: "(unit JobSpec option, unit) FlinkClusterSpec" where
  "exampleSpec =
     \<lparr>Image = \<lparr>ImageName = ''flink:1.8.1'', PullPolicy = ''Always'', ImageOther = ()\<rparr>,
      JobManager = exampleJobManager, TaskManager = exampleTaskManager,
      Job = Some exampleJob, SpecOther = ()\<rparr>"

definition exampleCluster :: "unit Cluster" where
  "exampleCluster =
     \<lparr>ObjectMeta = \<lparr>Name = ''wordcount'', Namespace = ''default''\<rparr>,
      Spec = exampleSpec\<rparr>"

text \<open>The same cluster with another job in place of its job.\<close>

definition withJob :: "unit Cluster \<Rightarrow> unit JobSpec \<Rightarrow> unit Cluster" where
  "withJob c job = c\<lparr>Spec := (Spec c)\<lparr>Job := Some job\<rparr>\<rparr>"

definition withJobManager :: "unit Cluster \<Rightarrow> unit JobManagerSpec \<Rightarrow> unit Cluster" where
  "withJobManager c jm = c\<lparr>Spec := (Spec c)\<lparr>JobManager := jm\<rparr>\<rparr>"

definition withTaskManager :: "unit Cluster \<Rightarrow> unit TaskManagerSpec \<Rightarrow> unit Cluster" where
  "withTaskManager c tm = c\<lparr>Spec := (Spec c)\<lparr>TaskManager := tm\<rparr>\<rparr>"

definition withImageName :: "unit Cluster \<Rightarrow> string \<Rightarrow> unit Cluster" where
  "withImageName c n =
     c\<lparr>Spec := (Spec c)\<lparr>Image := (Image (Spec c))\<lparr>ImageName := n\<rparr>\<rparr>\<rparr>"

text \<open>The example cluster without an off-heap minimum.\<close>

definition exampleNoMin :: "unit Cluster" where
  "exampleNoMin =
     withJobManager exampleCluster (exampleJobManager\<lparr>MemoryOffHeapMin := None\<rparr>)"

text \<open>
  The example cluster with the worker's data port in the reserved range, and the
  same without an off-heap minimum.
\<close>

definition exampleBadWorkerPort :: "unit Cluster" where
  "exampleBadWorkerPort =
     withTaskManager exampleCluster
       (exampleTaskManager\<lparr>TmPorts := (TmPorts exampleTaskManager)\<lparr>TmData := Some 80\<rparr>\<rparr>)"

definition exampleBadWorkerPortNoMin :: "unit Cluster" where
  "exampleBadWorkerPortNoMin =
     withTaskManager exampleNoMin
       (exampleTaskManager\<lparr>TmPorts := (TmPorts exampleTaskManager)\<lparr>TmData := Some 80\<rparr>\<rparr>)"

text \<open>The example cluster under another name.\<close>

definition exampleRenamed :: "unit Cluster" where
  "exampleRenamed =
     exampleCluster\<lparr>ObjectMeta := \<lparr>Name = ''wordcount-2'', Namespace = ''default''\<rparr>\<rparr>"

text \<open>
  A cluster that the create path rejects on several counts: no image name, two
  job managers, a reserved rpc port.
\<close>

definition exampleInvalid :: "unit Cluster" where
  "exampleInvalid =
     withImageName
       (withJobManager exampleCluster
          (exampleJobManager
             \<lparr>JmReplicas := Some 2,
              JmPorts := (JmPorts exampleJobManager)\<lparr>JmRPC := Some 80\<rparr>\<rparr>))
       []"

text \<open>
  A store holding two cluster objects with one job object each: at address 0 the
  example cluster, at address 1 the same cluster with cancellation requested.
\<close>

definition exampleStore :: "unit store" where
  "exampleStore =
     \<lparr>clusters =
        [\<lparr>ObjectMeta = ObjectMeta exampleCluster,
          Spec = \<lparr>Image = Image exampleSpec, JobManager = exampleJobManager,
                  TaskManager = exampleTaskManager, Job = Some 0, SpecOther = ()\<rparr>\<rparr>,
         \<lparr>ObjectMeta = ObjectMeta exampleCluster,
          Spec = \<lparr>Image = Image exampleSpec, JobManager = exampleJobManager,
                  TaskManager = exampleTaskManager, Job = Some 1, SpecOther = ()\<rparr>\<rparr>],
      jobs = [exampleJob, exampleJob\<lparr>CancelRequested := Some True\<rparr>]\<rparr>"

section \<open>Unfolding rules\<close>

lemmas example_defs = exampleJobManager_def exampleTaskManager_def exampleJob_def
  exampleSpec_def exampleCluster_def withJob_def withJobManager_def withTaskManager_def
  withImageName_def exampleNoMin_def exampleBadWorkerPort_def exampleBadWorkerPortNoMin_def
  exampleRenamed_def
  exampleInvalid_def

lemmas const_defs = PullAlways_def PullIfNotPresent_def PullNever_def
  RestartPolicyNever_def RestartPolicyOnFailure_def AccessScope_Cluster_def
  AccessScope_VPC_def AccessScope_External_def CleanupActionDeleteCluster_def
  CleanupActionDeleteTaskManager_def CleanupActionKeepCluster_def

lemmas create_defs = ValidateCreate_def validateMeta_def validateImage_def
  validateJobManager_def validateTaskManager_def validateJob_def validatePort_def
  validateCleanupAction_def word_sle_eq word_sless_alt

lemmas update_defs = ValidateUpdate_def checkCancelRequested_def DeepCopy_def
  DeepEqual_def assignCancelRequested_def

lemmas store_defs = ValidateUpdate_st_def checkCancelRequested_st_def DeepCopy_st_def
  assignCancelRequested_st_def DeepEqual_Spec_st_def DeepEqual_def specValue_def
  clusterValue_def validCluster_def load_def exampleStore_def

section \<open>The port rule\<close>

lemma validatePort_None_iff:
  "validatePort port name component = None \<longleftrightarrow> (\<exists>p. port = Some p \<and> 1024 <s p)"
  by (auto simp: validatePort_def word_sle_eq word_sless_alt split: option.splits)

lemma validatePort_fails_iff:
  "validatePort port name component \<noteq> None
     \<longleftrightarrow> (port = None \<or> (\<exists>p. port = Some p \<and> p <=s 1024))"
  by (auto simp: validatePort_def split: option.splits)

section \<open>The manager check never succeeds\<close>

text \<open>
  Whatever the manager specification, \<open>validateJobManager\<close> does not return
  \<^verbatim>\<open>nil\<close>: a present off-heap minimum is reported as unspecified, an absent one is
  dereferenced. Hence no call of \<open>ValidateCreate\<close> returns \<^verbatim>\<open>nil\<close> either.
\<close>

lemma validateJobManager_not_ok: "validateJobManager jm \<noteq> Return None"
  by (auto simp: validateJobManager_def split: option.splits)

lemma ValidateCreate_not_ok: "ValidateCreate c \<noteq> Return None"
  using validateJobManager_not_ok [of "JobManager (Spec c)"]
  by (auto simp: ValidateCreate_def split: option.splits outcome.splits)

lemma validateJobManager_reaches_min:
  assumes "JmReplicas jm = Some 1"
    and "AccessScope jm = AccessScope_Cluster \<or> AccessScope jm = AccessScope_VPC
         \<or> AccessScope jm = AccessScope_External"
    and "validatePort (JmRPC (JmPorts jm)) ''rpc'' ''jobmanager'' = None"
    and "validatePort (JmBlob (JmPorts jm)) ''blob'' ''jobmanager'' = None"
    and "validatePort (JmQuery (JmPorts jm)) ''query'' ''jobmanager'' = None"
    and "validatePort (JmUI (JmPorts jm)) ''ui'' ''jobmanager'' = None"
    and "MemoryOffHeapRatio jm = Some ratio" and "0 <=s ratio" and "ratio <=s 100"
  shows "validateJobManager jm =
           (case MemoryOffHeapMin jm of
              Some m \<Rightarrow> Return (Some MemoryOffHeapMinNotSpecified)
            | None \<Rightarrow> Panic)"
  using assms
  by (auto simp: validateJobManager_def word_sle_eq word_sless_alt split: option.splits)

lemma validateJobManager_bad_port:
  assumes "validatePort (JmRPC (JmPorts jm)) ''rpc'' ''jobmanager'' \<noteq> None
         \<or> validatePort (JmBlob (JmPorts jm)) ''blob'' ''jobmanager'' \<noteq> None
         \<or> validatePort (JmQuery (JmPorts jm)) ''query'' ''jobmanager'' \<noteq> None
         \<or> validatePort (JmUI (JmPorts jm)) ''ui'' ''jobmanager'' \<noteq> None"
  shows "\<exists>e. validateJobManager jm = Return (Some e)"
  using assms by (auto simp: validateJobManager_def split: option.splits)

lemma ValidateCreate_jm_error:
  assumes "validateJobManager (JobManager (Spec c)) = Return (Some e)"
  shows "\<exists>e'. ValidateCreate c = Return (Some e')"
  using assms by (auto simp: ValidateCreate_def split: option.splits)

lemma ValidateCreate_jm_panic:
  assumes "validateMeta (ObjectMeta c) = None" and "validateImage (Image (Spec c)) = None"
    and "validateJobManager (JobManager (Spec c)) = Panic"
  shows "ValidateCreate c = Panic"
  using assms by (simp add: ValidateCreate_def)

text \<open>
  Claim C1. A manager specification that reaches the off-heap-memory check
  should pass it when the minimum is present and the memory limit in MB is at
  least the minimum, and should be rejected with an error otherwise. The code
  does neither: at the example manager, whose minimum 600 is present and below
  the limit of 1024 MB, it returns the error "MemoryOffHeapMin is not
  specified"; with the minimum taken away it panics instead of returning an
  error.
\<close>

theorem C1_offheap_min_check_inverted:
  "MemoryOffHeapMin exampleJobManager = Some 600
   \<and> jmMemLimit (MemoryValue (Limits (Resources exampleJobManager))) = 1024
   \<and> validateJobManager exampleJobManager = Return (Some MemoryOffHeapMinNotSpecified)
   \<and> validateJobManager (exampleJobManager\<lparr>MemoryOffHeapMin := None\<rparr>) = Panic"
  by (simp add: example_defs const_defs validateJobManager_def validatePort_def
                jmMemLimit_def MemoryValue_def Let_def word_sle_eq word_sless_alt)

text \<open>
  Claim C2. A manager specification that passes the replicas, access-scope, four
  port and off-heap-ratio checks and has no off-heap minimum makes
  \<open>validateJobManager\<close> panic on the dereference of the \<^verbatim>\<open>nil\<close> minimum; a cluster
  with such a manager and a valid identity and image makes \<open>ValidateCreate\<close>
  panic; and \<open>ValidateCreate\<close> returns success on no cluster at all.
\<close>

theorem C2_nil_offheap_min_panics:
  assumes "JmReplicas jm = Some 1"
    and "AccessScope jm = AccessScope_Cluster \<or> AccessScope jm = AccessScope_VPC
         \<or> AccessScope jm = AccessScope_External"
    and "validatePort (JmRPC (JmPorts jm)) ''rpc'' ''jobmanager'' = None"
    and "validatePort (JmBlob (JmPorts jm)) ''blob'' ''jobmanager'' = None"
    and "validatePort (JmQuery (JmPorts jm)) ''query'' ''jobmanager'' = None"
    and "validatePort (JmUI (JmPorts jm)) ''ui'' ''jobmanager'' = None"
    and "MemoryOffHeapRatio jm = Some ratio" and "0 <=s ratio" and "ratio <=s 100"
    and "MemoryOffHeapMin jm = None"
  shows "validateJobManager jm = Panic
         \<and> (validateMeta (ObjectMeta c) = None \<and> validateImage (Image (Spec c)) = None
              \<and> JobManager (Spec c) = jm
            \<longrightarrow> ValidateCreate c = Panic)
         \<and> ValidateCreate c' \<noteq> Return None"
proof (intro conjI impI)
  show p: "validateJobManager jm = Panic"
    using validateJobManager_reaches_min [OF assms(1-9)] assms(10) by simp
  show "ValidateCreate c' \<noteq> Return None"
    by (rule ValidateCreate_not_ok)
  assume "validateMeta (ObjectMeta c) = None \<and> validateImage (Image (Spec c)) = None
              \<and> JobManager (Spec c) = jm"
  with p show "ValidateCreate c = Panic"
    by (simp add: ValidateCreate_jm_panic)
qed

theorem C2_nil_offheap_min_panics_witness:
  "validateJobManager (JobManager (Spec exampleNoMin)) = Panic
   \<and> ValidateCreate exampleNoMin = Panic
   \<and> ValidateCreate exampleCluster \<noteq> Return None"
  using C2_nil_offheap_min_panics
          [of "JobManager (Spec exampleNoMin)" 25 exampleNoMin exampleCluster]
  by (simp add: example_defs const_defs validatePort_def validateMeta_def
                validateImage_def word_sle_eq word_sless_alt)

section \<open>The port rule at creation\<close>

text \<open>
  The worker check passes exactly when there is at least one replica and each of
  the three worker ports is present and greater than 1024.
\<close>

lemma validateTaskManager_None_iff:
  "validateTaskManager tm = None
     \<longleftrightarrow> (1 <=s TmReplicas tm
          \<and> (\<exists>p. TmRPC (TmPorts tm) = Some p \<and> 1024 <s p)
          \<and> (\<exists>p. TmData (TmPorts tm) = Some p \<and> 1024 <s p)
          \<and> (\<exists>p. TmQuery (TmPorts tm) = Some p \<and> 1024 <s p))"
  by (auto simp: validateTaskManager_def validatePort_def word_sle_eq word_sless_alt
           split: option.splits)

text \<open>
  A failing port among the four of the manager makes \<open>ValidateCreate\<close> return an
  error.
\<close>

lemma ValidateCreate_bad_manager_port:
  assumes "\<exists>q \<in> {JmRPC (JmPorts (JobManager (Spec c))), JmBlob (JmPorts (JobManager (Spec c))),
               JmQuery (JmPorts (JobManager (Spec c))), JmUI (JmPorts (JobManager (Spec c)))}.
          q = None \<or> (\<exists>p. q = Some p \<and> p <=s 1024)"
  shows "\<exists>e. ValidateCreate c = Return (Some e)"
proof -
  from assms have
    "validatePort (JmRPC (JmPorts (JobManager (Spec c)))) ''rpc'' ''jobmanager'' \<noteq> None
     \<or> validatePort (JmBlob (JmPorts (JobManager (Spec c)))) ''blob'' ''jobmanager'' \<noteq> None
     \<or> validatePort (JmQuery (JmPorts (JobManager (Spec c)))) ''query'' ''jobmanager'' \<noteq> None
     \<or> validatePort (JmUI (JmPorts (JobManager (Spec c)))) ''ui'' ''jobmanager'' \<noteq> None"
    unfolding validatePort_fails_iff by blast
  then have "\<exists>e. validateJobManager (JobManager (Spec c)) = Return (Some e)"
    by (rule validateJobManager_bad_port)
  then show ?thesis
    using ValidateCreate_jm_error by blast
qed

text \<open>
  The worker and the job do not enter the result of \<open>ValidateCreate\<close>: the manager
  check before them never passes.
\<close>

lemma ValidateCreate_ignores_worker_and_job:
  "ValidateCreate (c\<lparr>Spec := (Spec c)\<lparr>TaskManager := tm, Job := job\<rparr>\<rparr>) = ValidateCreate c"
  using validateJobManager_not_ok [of "JobManager (Spec c)"]
  by (auto simp: ValidateCreate_def split: option.splits outcome.splits)

text \<open>
  Claim C7. The port check itself follows the rule, and so does the worker check
  taken alone. The last part of the claim, that a failing port in any of the
  seven fields makes creation fail, does not hold of \<open>ValidateCreate\<close> for the
  three worker fields. The example cluster without an off-heap minimum and with
  the worker's data port set to 80: the port check and the worker check return
  the error for port 80, but \<open>ValidateCreate\<close> panics in the manager check and
  returns nothing, as it does without the bad port. With the minimum present
  \<open>ValidateCreate\<close> returns the error about the minimum, with or without the bad
  port. This is the defect of claim C1: the manager check never passes, so the
  worker ports are never checked at creation.
\<close>

theorem C7_worker_port_not_checked_at_creation:
  "TmData (TmPorts (TaskManager (Spec exampleBadWorkerPortNoMin))) = Some 80
   \<and> validatePort (Some 80) ''data'' ''taskmanager''
       = Some (InvalidPort ''taskmanager'' ''data'' 80)
   \<and> validateTaskManager (TaskManager (Spec exampleBadWorkerPortNoMin))
       = Some (InvalidPort ''taskmanager'' ''data'' 80)
   \<and> ValidateCreate exampleBadWorkerPortNoMin = Panic
   \<and> ValidateCreate exampleNoMin = Panic
   \<and> ValidateCreate exampleBadWorkerPort = Return (Some MemoryOffHeapMinNotSpecified)
   \<and> ValidateCreate exampleCluster = Return (Some MemoryOffHeapMinNotSpecified)"
  by (simp add: example_defs const_defs create_defs)

section \<open>The cancel flag at creation\<close>










section \<open>The update path on values\<close>

lemma checkCancelRequested_ObjectMeta:
  "checkCancelRequested (old\<lparr>ObjectMeta := m\<rparr>) (new\<lparr>ObjectMeta := m'\<rparr>)
     = checkCancelRequested old new"
  by (auto simp: checkCancelRequested_def DeepCopy_def assignCancelRequested_def
                 DeepEqual_def Let_def split: option.splits)

text \<open>
  Claim C4. When both specifications have a job, the old flag is true and the
  new flag is false or absent, \<open>checkCancelRequested\<close> returns the error for
  an un-cancel and \<open>ValidateUpdate\<close> returns it, whatever else the two
  specifications hold.
\<close>

theorem C4_uncancel_rejected:
  assumes "Job (Spec old) = Some oldJob" and "Job (Spec new) = Some newJob"
    and "CancelRequested oldJob = Some True"
    and "CancelRequested newJob = None \<or> CancelRequested newJob = Some False"
  shows "checkCancelRequested old new = (False, Some CancelTrueToFalse)
         \<and> ValidateUpdate old new = Some CancelTrueToFalse"
  using assms by (auto simp: ValidateUpdate_def checkCancelRequested_def)

theorem C4_uncancel_rejected_witness:
  "ValidateUpdate (withJob exampleCluster (exampleJob\<lparr>CancelRequested := Some True\<rparr>))
                  (withJob exampleCluster (exampleJob\<lparr>CancelRequested := Some False\<rparr>))
     = Some CancelTrueToFalse
   \<and> ValidateUpdate (withJob exampleCluster (exampleJob\<lparr>CancelRequested := Some True\<rparr>))
                  (withJob exampleRenamed (exampleJob\<lparr>JarFile := ''/opt/other.jar''\<rparr>))
     = Some CancelTrueToFalse"
  using C4_uncancel_rejected
          [of "withJob exampleCluster (exampleJob\<lparr>CancelRequested := Some True\<rparr>)"
              "exampleJob\<lparr>CancelRequested := Some True\<rparr>"
              "withJob exampleCluster (exampleJob\<lparr>CancelRequested := Some False\<rparr>)"
              "exampleJob\<lparr>CancelRequested := Some False\<rparr>"]
        C4_uncancel_rejected
          [of "withJob exampleCluster (exampleJob\<lparr>CancelRequested := Some True\<rparr>)"
              "exampleJob\<lparr>CancelRequested := Some True\<rparr>"
              "withJob exampleRenamed (exampleJob\<lparr>JarFile := ''/opt/other.jar''\<rparr>)"
              "exampleJob\<lparr>JarFile := ''/opt/other.jar''\<rparr>"]
  by (simp add: example_defs)

text \<open>
  Claim C5. When both specifications have a job, the old flag is false or
  absent, the new flag is true, and the new specification is the old one with
  only the flag of its job replaced, \<open>checkCancelRequested\<close> reports the cancel
  transition and \<open>ValidateUpdate\<close> accepts, without comparing the two
  specifications again.
\<close>

theorem C5_cancel_transition_accepted:
  assumes "Job (Spec old) = Some oldJob" and "Job (Spec new) = Some newJob"
    and "CancelRequested oldJob = None \<or> CancelRequested oldJob = Some False"
    and "CancelRequested newJob = Some True"
    and "Spec new = (Spec old)\<lparr>Job := Some (oldJob\<lparr>CancelRequested := Some True\<rparr>)\<rparr>"
  shows "checkCancelRequested old new = (True, None) \<and> ValidateUpdate old new = None"
  using assms by (auto simp: update_defs)

theorem C5_cancel_transition_accepted_witness:
  "ValidateUpdate exampleCluster
     (withJob exampleCluster (exampleJob\<lparr>CancelRequested := Some True\<rparr>)) = None
   \<and> Spec exampleCluster
       \<noteq> Spec (withJob exampleCluster (exampleJob\<lparr>CancelRequested := Some True\<rparr>))"
  using C5_cancel_transition_accepted
          [of exampleCluster exampleJob
              "withJob exampleCluster (exampleJob\<lparr>CancelRequested := Some True\<rparr>)"
              "exampleJob\<lparr>CancelRequested := Some True\<rparr>"]
  by (simp add: example_defs)



text \<open>
  Claim C3, as the spec states it, has the identity (name, namespace) in the
  compared tree. The code compares \<^verbatim>\<open>new.Spec\<close> with \<^verbatim>\<open>old.Spec\<close>, and the identity
  is in \<^verbatim>\<open>ObjectMeta\<close>: renaming the example cluster is neither cancel transition,
  and is accepted.
\<close>

theorem C3_identity_change_accepted:
  "Name (ObjectMeta exampleRenamed) \<noteq> Name (ObjectMeta exampleCluster)
   \<and> checkCancelRequested exampleCluster exampleRenamed = (False, None)
   \<and> ValidateUpdate exampleCluster exampleRenamed = None"
  by (simp add: example_defs update_defs)

text \<open>
  Claim C3, amended. For every update that is neither the rejected un-cancel
  transition nor the permitted cancel transition, \<open>ValidateUpdate\<close> rejects as
  not updatable whenever the \<^verbatim>\<open>Spec\<close> of the new cluster (image, manager, worker,
  job and the rest of the \<^verbatim>\<open>Spec\<close>) differs from the \<^verbatim>\<open>Spec\<close> of the old one. The
  identity is not compared: replacing the \<^verbatim>\<open>ObjectMeta\<close> of either cluster
  does not change the result.
\<close>

theorem C3_spec_change_rejected:
  assumes "\<not> (\<exists>oldJob newJob. Job (Spec old) = Some oldJob \<and> Job (Spec new) = Some newJob
               \<and> CancelRequested oldJob = Some True
               \<and> CancelRequested newJob \<noteq> Some True)"
    and "\<not> (\<exists>oldJob newJob. Job (Spec old) = Some oldJob \<and> Job (Spec new) = Some newJob
               \<and> CancelRequested oldJob \<noteq> Some True
               \<and> CancelRequested newJob = Some True
               \<and> Spec new = (Spec old)\<lparr>Job := Some (oldJob\<lparr>CancelRequested := Some True\<rparr>)\<rparr>)"
    and "Spec new \<noteq> Spec old"
  shows "ValidateUpdate old new = Some NotUpdatable
         \<and> ValidateUpdate (old\<lparr>ObjectMeta := m\<rparr>) (new\<lparr>ObjectMeta := m'\<rparr>)
             = ValidateUpdate old new"
proof
  show "ValidateUpdate old new = Some NotUpdatable"
    using assms by (auto simp: update_defs split: option.splits)
  show "ValidateUpdate (old\<lparr>ObjectMeta := m\<rparr>) (new\<lparr>ObjectMeta := m'\<rparr>)
             = ValidateUpdate old new"
    by (simp add: ValidateUpdate_def checkCancelRequested_ObjectMeta)
qed

theorem C3_spec_change_rejected_witness:
  "Spec (withImageName exampleCluster ''flink:1.9.0'') \<noteq> Spec exampleCluster
   \<and> ValidateUpdate exampleCluster (withImageName exampleCluster ''flink:1.9.0'')
       = Some NotUpdatable
   \<and> ValidateUpdate exampleRenamed (withImageName exampleCluster ''flink:1.9.0'')
       = Some NotUpdatable"
  using C3_spec_change_rejected
          [of exampleCluster "withImageName exampleCluster ''flink:1.9.0''"
              "ObjectMeta exampleRenamed" "ObjectMeta exampleCluster"]
  by (simp add: example_defs)

text \<open>
  Claim C10. \<open>ValidateUpdate\<close> validates no field: whenever the two clusters have
  equal \<^verbatim>\<open>Spec\<close>s it returns success, also for a \<^verbatim>\<open>Spec\<close> that \<open>ValidateCreate\<close>
  rejects.
\<close>

theorem C10_equal_specs_accepted:
  assumes "Spec new = Spec old"
  shows "ValidateUpdate old new = None"
  using assms by (auto simp: update_defs split: option.splits)

theorem C10_equal_specs_accepted_witness:
  "ValidateUpdate exampleInvalid exampleInvalid = None
   \<and> ValidateCreate exampleInvalid = Return (Some ImageNameUnspecified)
   \<and> validateJobManager (JobManager (Spec exampleInvalid))
       = Return (Some InvalidJobManagerReplicas)
   \<and> validatePort (JmRPC (JmPorts (JobManager (Spec exampleInvalid)))) ''rpc'' ''jobmanager''
       = Some (InvalidPort ''jobmanager'' ''rpc'' 80)"
  using C10_equal_specs_accepted [of exampleInvalid exampleInvalid]
  by (simp add: example_defs const_defs create_defs)

section \<open>The update path on a store: what is written\<close>

lemma deref_Return_iff: "deref p = Return v \<longleftrightarrow> p = Some v"
  by (cases p) auto

text \<open>A copy leaves every object allocated before it as it was.\<close>

lemma DeepCopy_st_frame:
  "DeepCopy_st s p = (r, s1) \<Longrightarrow>
     take (length (clusters s)) (clusters s1) = clusters s
   \<and> take (length (jobs s)) (jobs s1) = jobs s"
  by (auto simp: DeepCopy_st_def split: outcome.splits option.splits)

text \<open>The job of the copy is at an address that was free before the copy.\<close>

lemma DeepCopy_st_fresh:
  "DeepCopy_st s p = (Return q, s1) \<Longrightarrow>
     (\<forall>a. Job (Spec (clusters s1 ! q)) = Some a \<longrightarrow> length (jobs s) \<le> a)"
  by (auto simp: DeepCopy_st_def split: outcome.splits option.splits)

lemma DeepCopy_st_Panic:
  "DeepCopy_st s p = (Panic, s1) \<Longrightarrow> s1 = s"
  by (auto simp: DeepCopy_st_def split: outcome.splits option.splits)

text \<open>The assignment writes one job object: the one the destination points to.\<close>

lemma assignCancelRequested_st_frame:
  "assignCancelRequested_st s1 dst src = (r, s2) \<Longrightarrow>
   (\<forall>a. Job (Spec (clusters s1 ! dst)) = Some a \<longrightarrow> n \<le> a) \<Longrightarrow>
   clusters s2 = clusters s1 \<and> take n (jobs s2) = take n (jobs s1)"
  by (auto simp: assignCancelRequested_st_def load_def deref_Return_iff
           split: outcome.splits option.splits if_splits)

lemma checkCancelRequested_st_frame:
  assumes "checkCancelRequested_st s old new = (r, s')"
  shows "take (length (clusters s)) (clusters s') = clusters s
   \<and> take (length (jobs s)) (jobs s') = jobs s"
proof (cases "s' = s")
  case True
  then show ?thesis by simp
next
  case False
  with assms obtain oldCopy s1 r2 where
    c: "DeepCopy_st s old = (Return oldCopy, s1)" and
    a: "assignCancelRequested_st s1 oldCopy new = (r2, s')"
    by (auto simp: checkCancelRequested_st_def Let_def
             dest: DeepCopy_st_Panic
             split: outcome.splits option.splits if_splits prod.splits)
  from DeepCopy_st_fresh [OF c] assignCancelRequested_st_frame [OF a, of "length (jobs s)"]
  have "clusters s' = clusters s1"
    "take (length (jobs s)) (jobs s') = take (length (jobs s)) (jobs s1)"
    by auto
  with DeepCopy_st_frame [OF c] show ?thesis by simp
qed

lemma ValidateUpdate_st_store:
  "snd (ValidateUpdate_st s old new) = snd (checkCancelRequested_st s old new)"
  by (auto simp: ValidateUpdate_st_def split: prod.splits outcome.splits)

lemma ValidateUpdate_st_frame:
  "take (length (clusters s)) (clusters (snd (ValidateUpdate_st s old new))) = clusters s
   \<and> take (length (jobs s)) (jobs (snd (ValidateUpdate_st s old new))) = jobs s"
  using checkCancelRequested_st_frame [of s old new] ValidateUpdate_st_store [of s old new]
  by (cases "checkCancelRequested_st s old new") simp

text \<open>
  When the objects allocated in \<open>s\<close> are unchanged in \<open>s'\<close>, a cluster that is
  well formed in \<open>s\<close> is the same object with the same value in \<open>s'\<close>.
\<close>

lemma frame_validCluster:
  assumes "take (length (clusters s)) (clusters s') = clusters s"
    and "take (length (jobs s)) (jobs s') = jobs s"
    and "validCluster s p"
  shows "validCluster s' p \<and> clusters s' ! p = clusters s ! p
         \<and> clusterValue s' p = clusterValue s p"
proof -
  from assms(3) have p: "p < length (clusters s)" by (simp add: validCluster_def)
  have lc: "length (clusters s) \<le> length (clusters s')"
    using assms(1) by (metis length_take min.cobounded1)
  have lj: "length (jobs s) \<le> length (jobs s')"
    using assms(2) by (metis length_take min.cobounded1)
  have c: "clusters s' ! p = clusters s ! p"
    using p assms(1) by (metis nth_take)
  have j: "\<And>a. a < length (jobs s) \<Longrightarrow> jobs s' ! a = jobs s ! a"
    using assms(2) by (metis nth_take)
  show ?thesis
    using assms(3) p lc lj c j
    by (auto simp: validCluster_def clusterValue_def specValue_def split: option.splits)
qed

text \<open>
  Claim C9. \<open>ValidateUpdate\<close> changes no object that was allocated before the
  call: the cluster objects and the job objects of the store before the call
  are a prefix of those after it. In particular, when \<^verbatim>\<open>old\<close> (or \<^verbatim>\<open>new\<close>) points
  to a well-formed cluster, the object it points to and the whole value
  reachable from it are the same after the call. The one write of the path goes
  to the job object of the copy.
\<close>

theorem C9_inputs_unchanged:
  "take (length (clusters s)) (clusters (snd (ValidateUpdate_st s old new))) = clusters s
   \<and> take (length (jobs s)) (jobs (snd (ValidateUpdate_st s old new))) = jobs s
   \<and> (validCluster s old \<longrightarrow>
        clusters (snd (ValidateUpdate_st s old new)) ! old = clusters s ! old
        \<and> clusterValue (snd (ValidateUpdate_st s old new)) old = clusterValue s old)
   \<and> (validCluster s new \<longrightarrow>
        clusters (snd (ValidateUpdate_st s old new)) ! new = clusters s ! new
        \<and> clusterValue (snd (ValidateUpdate_st s old new)) new = clusterValue s new)"
  using ValidateUpdate_st_frame [of s old new]
    frame_validCluster [of s "snd (ValidateUpdate_st s old new)" old]
    frame_validCluster [of s "snd (ValidateUpdate_st s old new)" new]
  by simp

theorem C9_inputs_unchanged_witness:
  "validCluster exampleStore 0 \<and> validCluster exampleStore 1
   \<and> fst (ValidateUpdate_st exampleStore 0 1) = Return None
   \<and> length (clusters (snd (ValidateUpdate_st exampleStore 0 1))) = 3
   \<and> jobs (snd (ValidateUpdate_st exampleStore 0 1))
       = jobs exampleStore @ [exampleJob\<lparr>CancelRequested := Some True\<rparr>]
   \<and> clusterValue (snd (ValidateUpdate_st exampleStore 0 1)) 0 = exampleCluster
   \<and> clusterValue (snd (ValidateUpdate_st exampleStore 0 1)) 1
       = withJob exampleCluster (exampleJob\<lparr>CancelRequested := Some True\<rparr>)"
  using C9_inputs_unchanged [of exampleStore 0 1]
  by (simp add: store_defs example_defs)

section \<open>The two readings of the update path agree\<close>

lemma DeepCopy_st_valid:
  assumes "validCluster s p"
  shows "DeepCopy_st s p =
     (Return (length (clusters s)),
      (case Job (Spec (clusters s ! p)) of
         None \<Rightarrow> s\<lparr>clusters := clusters s @ [clusters s ! p]\<rparr>
       | Some jobP \<Rightarrow>
           s\<lparr>clusters := clusters s @
                 [(clusters s ! p)
                    \<lparr>Spec := (Spec (clusters s ! p))\<lparr>Job := Some (length (jobs s))\<rparr>\<rparr>],
             jobs := jobs s @ [jobs s ! jobP]\<rparr>))"
  using assms by (auto simp: DeepCopy_st_def validCluster_def load_def split: option.splits)

lemma checkCancelRequested_st_value:
  assumes "validCluster s old" and "validCluster s new"
  shows "fst (checkCancelRequested_st s old new)
           = Return (checkCancelRequested (clusterValue s old) (clusterValue s new))"
proof (cases "Job (Spec (clusters s ! old))")
  case None
  with assms show ?thesis
    by (simp add: checkCancelRequested_st_def checkCancelRequested_def clusterValue_def
                  specValue_def validCluster_def load_def)
next
  case (Some oldJobP)
  note o = Some
  show ?thesis
  proof (cases "Job (Spec (clusters s ! new))")
    case None
    with assms o show ?thesis
      by (simp add: checkCancelRequested_st_def checkCancelRequested_def clusterValue_def
                  specValue_def validCluster_def load_def)
  next
    case (Some newJobP)
    with assms o have v: "old < length (clusters s)" "new < length (clusters s)"
      "oldJobP < length (jobs s)" "newJobP < length (jobs s)"
      by (auto simp: validCluster_def)
    show ?thesis
      using o Some v DeepCopy_st_valid [OF assms(1)]
      by (auto simp add: checkCancelRequested_st_def checkCancelRequested_def
                  clusterValue_def specValue_def load_def Let_def
                  assignCancelRequested_st_def DeepEqual_Spec_st_def DeepEqual_def
                  DeepCopy_def assignCancelRequested_def nth_append)
  qed
qed

lemma DeepEqual_Spec_st_value:
  assumes "a < length (clusters s)" and "b < length (clusters s)"
  shows "DeepEqual_Spec_st s a b
           = Return (DeepEqual (Spec (clusterValue s a)) (Spec (clusterValue s b)))"
  using assms by (simp add: DeepEqual_Spec_st_def load_def clusterValue_def)

text \<open>
  On well-formed clusters the update path on the store returns what the update
  path on values returns for the values of the two clusters.
\<close>

lemma ValidateUpdate_st_value:
  assumes "validCluster s old" and "validCluster s new"
  shows "fst (ValidateUpdate_st s old new)
           = Return (ValidateUpdate (clusterValue s old) (clusterValue s new))"
proof -
  obtain r s1 where c: "checkCancelRequested_st s old new = (r, s1)"
    by (cases "checkCancelRequested_st s old new")
  with checkCancelRequested_st_value [OF assms]
  have r: "r = Return (checkCancelRequested (clusterValue s old) (clusterValue s new))"
    by simp
  from checkCancelRequested_st_frame [OF c] assms
  have "validCluster s1 old \<and> clusters s1 ! old = clusters s ! old
         \<and> clusterValue s1 old = clusterValue s old"
    and "validCluster s1 new \<and> clusters s1 ! new = clusters s ! new
         \<and> clusterValue s1 new = clusterValue s new"
    using frame_validCluster by blast+
  then have "DeepEqual_Spec_st s1 new old
      = Return (DeepEqual (Spec (clusterValue s new)) (Spec (clusterValue s old)))"
    using DeepEqual_Spec_st_value [of new s1 old] by (simp add: validCluster_def)
  with c r show ?thesis
    by (auto simp: ValidateUpdate_st_def ValidateUpdate_def split: prod.splits)
qed

end
